theory Spec2Isabelle
  imports Main "HOL-Library.Multiset" "HOL-Library.List_Lexorder" "HOL-Library.Char_ord"
begin

section \<open>The shallowcopy generator of gen.go\<close>

text \<open>
  gen.go is a controller-tools generator: for every type declaration of a package that
  carries the marker \<^verbatim>\<open>shallowcopy:generate\<close> and passes \<^verbatim>\<open>shouldBeCopied\<close> it
  collects the struct's field names, builds one \<^verbatim>\<open>ShallowCopy\<close> method per struct with
  jennifer, renders and formats the file and writes it out.

  The program works on values of three libraries that are not part of the repository:
  go/types (resolved types), go/ast and go/format, and jennifer (the code builder).
  What the program asks of go/types, go/ast, go/format and the output sink is taken as
  a parameter (the records \<open>libs\<close> and \<open>sink\<close> below); nothing is assumed about these
  parameters unless a theorem says so. jennifer's builders and renderers are written out
  as far as the program uses them, after jennifer's own source (\<^verbatim>\<open>jen/dict.go\<close>,
  \<^verbatim>\<open>jen/group.go\<close>, \<^verbatim>\<open>jen/statement.go\<close>, \<^verbatim>\<open>jen/jen.go\<close>).
\<close>

subsection \<open>go/types as the program sees it\<close>

text \<open>
  A \<^verbatim>\<open>types.Type\<close> is an interface value holding a pointer; the program compares such
  values with \<^verbatim>\<open>==\<close> and \<^verbatim>\<open>!=\<close> (pointer identity), asks for their dynamic type
  with type assertions and calls \<^verbatim>\<open>Underlying()\<close>. A type is therefore modelled by its
  identity, a number, and the library by the functions the program calls on it.
\<close>

type_synonym tid = nat

text \<open>The dynamic types the program asserts: \<^verbatim>\<open>*types.Named\<close>, \<^verbatim>\<open>*types.Pointer\<close>,
  \<^verbatim>\<open>*types.Struct\<close>, \<^verbatim>\<open>*types.Basic\<close>; every other implementation is \<open>Other\<close>.\<close>

datatype kind = Named | Pointer | Struct | Basic | Other

text \<open>The type of the object found by \<^verbatim>\<open>types.LookupFieldOrMethod\<close>: a
  \<^verbatim>\<open>*types.Signature\<close> with its parameter and result tuples (\<open>None\<close> is a nil
  \<^verbatim>\<open>*types.Tuple\<close>, \<open>Some n\<close> a tuple with \<^verbatim>\<open>Len() = n\<close>), or any other type.\<close>

datatype obj_type = Signature (Params: "nat option") (Results: "nat option") | NotSignature

type_synonym ident = nat

text \<open>An error value returned by a library, as far as the program and
  \<^verbatim>\<open>loader.Package.AddError\<close> look at it: the text of \<^verbatim>\<open>Error()\<close>, and the messages of
  the entries that \<^verbatim>\<open>AddError\<close> appends for it (one for a plain error; one per element
  for a \<^verbatim>\<open>scanner.ErrorList\<close> or a \<^verbatim>\<open>loader.ErrList\<close>).\<close>

datatype liberror = LibError (message: string) (entries: "string list")

record libs =
  kind_of :: "tid \<Rightarrow> kind"
  Underlying :: "tid \<Rightarrow> tid"
  Elem :: "tid \<Rightarrow> tid"
  LookupShallowCopy :: "tid \<Rightarrow> obj_type option \<times> nat list"
  NumFields :: "tid \<Rightarrow> nat"
  Field_Name :: "tid \<Rightarrow> nat \<Rightarrow> string"
  Invalid :: tid
  IsExported :: "string \<Rightarrow> bool"
  formatSource :: "string \<Rightarrow> liberror + string"

text \<open>
  \<^item> \<open>LookupShallowCopy G t\<close> is
    \<^verbatim>\<open>types.LookupFieldOrMethod(t, true, pkg.Types, "ShallowCopy")\<close>: the object found
    (here: its type), if any, and the index sequence.
  \<^item> \<open>Elem G t\<close> is \<^verbatim>\<open>Elem()\<close> of a pointer type, its pointee. The program never
    calls it; it is here to say what a pointer points to.
  \<^item> \<open>NumFields G t\<close> and \<open>Field_Name G t i\<close> are \<^verbatim>\<open>NumFields()\<close> and
    \<^verbatim>\<open>Field(i).Name()\<close> of a struct type.
  \<^item> \<open>Invalid G\<close> is \<^verbatim>\<open>types.Typ[types.Invalid]\<close>.
  \<^item> \<open>IsExported G\<close> is \<^verbatim>\<open>ast.IsExported\<close>.
  \<^item> \<open>formatSource G\<close> is \<^verbatim>\<open>format.Source\<close>; \<open>Inl\<close> carries the error it returns.
\<close>

subsection \<open>Packages, markers and errors\<close>

text \<open>The entries of a package's error list: one of the program's own two messages,
  wrapped by \<^verbatim>\<open>loader.ErrFromNode\<close> with the declaration it is about, an entry made
  from an error that a library call returned, and \<^verbatim>\<open>io.ErrShortWrite\<close>.\<close>

datatype error = ErrFromNode string ident | LibraryError string | ErrShortWrite

text \<open>A marker value is an \<^verbatim>\<open>interface{}\<close>; the program asserts \<^verbatim>\<open>bool\<close>.\<close>

datatype marker_value = BoolValue bool | OtherValue

datatype panic = TypeAssertion | NilDereference

text \<open>\<^verbatim>\<open>markers.TypeInfo\<close>: the declared name, the declaring node (the key under which
  \<^verbatim>\<open>TypesInfo.TypeOf\<close> knows the declared type) and the marker values by marker name.\<close>

record TypeInfo =
  Name :: string
  RawSpec :: ident
  Markers :: "string \<Rightarrow> marker_value list"

text \<open>\<^verbatim>\<open>loader.Package\<close>: its name, \<^verbatim>\<open>TypesInfo.TypeOf\<close> (\<open>None\<close> is the nil type of
  an unknown expression), what \<^verbatim>\<open>markers.EachType\<close> does on it (fail, or call back on
  each declaration in turn), and the errors added so far.\<close>

record package =
  PkgName :: string
  TypeOf :: "ident \<Rightarrow> tid option"
  Types :: "liberror + TypeInfo list"
  errors :: "error list"

text \<open>\<^verbatim>\<open>AddError\<close> on one of the program's own errors or on \<^verbatim>\<open>io.ErrShortWrite\<close>
  appends one entry; on an error returned by a library it appends that error's
  entries.\<close>

definition AddError :: "package \<Rightarrow> error \<Rightarrow> package" where
  "AddError pkg e = pkg\<lparr>errors := errors pkg @ [e]\<rparr>"

definition AddLibraryError :: "package \<Rightarrow> liberror \<Rightarrow> package" where
  "AddLibraryError pkg e = pkg\<lparr>errors := errors pkg @ map LibraryError (entries e)\<rparr>"

record copyStructs =
  StructName :: string
  Fields :: "string list"

subsection \<open>enabledOnType\<close>

definition enableTypeMarker_Name :: string where
  "enableTypeMarker_Name = ''shallowcopy:generate''"

text \<open>\<^verbatim>\<open>MarkerValues.Get\<close>: the first value under the name, nil when there is none.\<close>

definition Get :: "(string \<Rightarrow> marker_value list) \<Rightarrow> string \<Rightarrow> marker_value option" where
  "Get m name = (case m name of [] \<Rightarrow> None | v # _ \<Rightarrow> Some v)"

definition enabledOnType :: "TypeInfo \<Rightarrow> panic + bool" where
  "enabledOnType info =
     (case Get (Markers info) enableTypeMarker_Name of
        Some (BoolValue b) \<Rightarrow> Inr b
      | Some OtherValue \<Rightarrow> Inl TypeAssertion
      | None \<Rightarrow> Inr False)"

subsection \<open>hasShallowCopyMethod\<close>

definition hasShallowCopyMethod :: "libs \<Rightarrow> tid \<Rightarrow> panic + bool" where
  "hasShallowCopyMethod G typeInfo =
     (let (shallowCopyMethod, ind) = LookupShallowCopy G typeInfo in
      if length ind \<noteq> 1 then Inr False
      else (case shallowCopyMethod of
              None \<Rightarrow> Inr False
            | Some NotSignature \<Rightarrow> Inl TypeAssertion
            | Some (Signature ps rs) \<Rightarrow>
                if ps \<noteq> None \<and> ps \<noteq> Some 0 then Inr False
                else if rs = None \<or> rs \<noteq> Some 1 then Inr False
                else Inr True))"

subsection \<open>shouldBeCopied\<close>

text \<open>
  The \<^verbatim>\<open>for\<close> loop of \<^verbatim>\<open>shouldBeCopied\<close>, with its two rolling variables. It leaves by
  \<^verbatim>\<open>return true\<close>, by its condition becoming false (then \<open>lastType\<close> is what the code
  after the loop looks at), or by a panic inside \<^verbatim>\<open>hasShallowCopyMethod\<close>. Nothing in
  the program bounds the number of rounds, so not returning is the value \<open>None\<close>.
\<close>

datatype loop_exit = ReturnedTrue | Converged tid | Panicked panic

partial_function (option) alias_loop :: "libs \<Rightarrow> tid \<Rightarrow> tid \<Rightarrow> loop_exit option" where
  "alias_loop G lastType underlyingType =
     (if underlyingType = lastType then Some (Converged lastType)
      else if isl (hasShallowCopyMethod G underlyingType)
        then Some (Panicked (projl (hasShallowCopyMethod G underlyingType)))
      else if projr (hasShallowCopyMethod G underlyingType) then Some ReturnedTrue
      else if kind_of G underlyingType \<noteq> Basic then Some ReturnedTrue
      else alias_loop G underlyingType (Underlying G underlyingType))"

declare alias_loop.simps [code]

text \<open>
  \<^verbatim>\<open>shouldBeCopied\<close> returns its verdict and the package with the errors it added, or
  panics: \<^verbatim>\<open>typeInfo.(*types.Named)\<close> is a type assertion without the comma-ok form,
  so a declared type that is nil or not a \<^verbatim>\<open>*types.Named\<close> panics there.
\<close>

definition shouldBeCopied ::
  "libs \<Rightarrow> package \<Rightarrow> TypeInfo \<Rightarrow> (panic + bool \<times> package) option" where
  "shouldBeCopied G pkg info =
     (if \<not> IsExported G (Name info) then Some (Inr (False, pkg))
      else (case TypeOf pkg (RawSpec info) of
        None \<Rightarrow> Some (Inl TypeAssertion)
      | Some declared \<Rightarrow>
          if declared = Invalid G
          then Some (Inr (False,
                 AddError pkg (ErrFromNode (''unknown type '' @ Name info) (RawSpec info))))
          else if kind_of G declared \<noteq> Named then Some (Inl TypeAssertion)
          else
            let typeInfo = (if kind_of G (Underlying G declared) = Pointer
                            then Underlying G declared else declared);
                lastType = typeInfo
            in if kind_of G typeInfo = Named
               then (case hasShallowCopyMethod G typeInfo of
                       Inl p \<Rightarrow> Some (Inl p)
                     | Inr True \<Rightarrow> Some (Inr (True, pkg))
                     | Inr False \<Rightarrow>
                        (case alias_loop G lastType (Underlying G typeInfo) of
                           None \<Rightarrow> None
                         | Some ReturnedTrue \<Rightarrow> Some (Inr (True, pkg))
                         | Some (Panicked p) \<Rightarrow> Some (Inl p)
                         | Some (Converged final) \<Rightarrow>
                             Some (Inr (kind_of G final = Struct, pkg))))
               else Some (Inr (kind_of G lastType = Struct, pkg))))"

subsection \<open>The callback of Generate\<close>

text \<open>
  The function handed to \<^verbatim>\<open>markers.EachType\<close>. It works on the package (for
  \<^verbatim>\<open>AddError\<close>) and on the slice \<^verbatim>\<open>structs\<close>. \<open>cb_exit\<close> names the statement by
  which it leaves: the \<^verbatim>\<open>return\<close> after \<^verbatim>\<open>enabledOnType\<close>, the one after
  \<^verbatim>\<open>shouldBeCopied\<close>, the one after "is not a struct type", or the end of the body.
\<close>

datatype cb_exit = NotEnabled | NotCopied | NotStruct | Appended

text \<open>The loop over \<^verbatim>\<open>stype.Field(i)\<close> for \<^verbatim>\<open>i < stype.NumFields()\<close>.\<close>

definition fieldNames :: "libs \<Rightarrow> tid \<Rightarrow> string list" where
  "fieldNames G stype = map (Field_Name G stype) [0 ..< NumFields G stype]"

definition callback ::
  "libs \<Rightarrow> package \<times> copyStructs list \<Rightarrow> TypeInfo
     \<Rightarrow> (panic + cb_exit \<times> package \<times> copyStructs list) option" where
  "callback G st info =
     (let (root, structs) = st in
      case enabledOnType info of
        Inl p \<Rightarrow> Some (Inl p)
      | Inr False \<Rightarrow> Some (Inr (NotEnabled, root, structs))
      | Inr True \<Rightarrow>
         (case shouldBeCopied G root info of
            None \<Rightarrow> None
          | Some (Inl p) \<Rightarrow> Some (Inl p)
          | Some (Inr (False, root1)) \<Rightarrow> Some (Inr (NotCopied, root1, structs))
          | Some (Inr (True, root1)) \<Rightarrow>
             (case TypeOf root1 (RawSpec info) of
                None \<Rightarrow> Some (Inl NilDereference)
              | Some typeInfo \<Rightarrow>
                  let root2 = (if typeInfo = Invalid G
                               then AddError root1
                                 (ErrFromNode (''unknown type '' @ Name info) (RawSpec info))
                               else root1);
                      stype = Underlying G typeInfo
                  in if kind_of G stype \<noteq> Struct
                     then Some (Inr (NotStruct,
                            AddError root2
                              (ErrFromNode (Name info @ '' is not a struct type'') (RawSpec info)),
                            structs))
                     else Some (Inr (Appended, root2,
                            structs @ [\<lparr>StructName = Name info,
                                        Fields = fieldNames G stype\<rparr>])))))"

text \<open>\<^verbatim>\<open>markers.EachType\<close> calling back on each declaration in turn; a panic, or a
  callback that does not return, ends it.\<close>

fun EachType ::
  "libs \<Rightarrow> TypeInfo list \<Rightarrow> package \<times> copyStructs list
     \<Rightarrow> (panic + package \<times> copyStructs list) option" where
  "EachType G [] st = Some (Inr st)"
| "EachType G (info # infos) st =
     (case callback G st info of
        None \<Rightarrow> None
      | Some (Inl p) \<Rightarrow> Some (Inl p)
      | Some (Inr (_, st')) \<Rightarrow> EachType G infos st')"

subsection \<open>jennifer: the code the program builds\<close>

text \<open>
  jennifer's \<^verbatim>\<open>Code\<close> values: a token, a group (opening text, items, separator,
  closing text, multi-line flag), a statement (a sequence of codes) and \<^verbatim>\<open>Dict\<close>.
  \<^verbatim>\<open>jen.Dict\<close> is a Go map from \<^verbatim>\<open>Code\<close> to \<^verbatim>\<open>Code\<close>, here the list of its
  entries. A Go map has no order of its own: the order in which \<^verbatim>\<open>range\<close> visits
  the entries is not specified and changes from run to run. It is the parameter
  \<open>\<rho>\<close> of the renderers below, a rearrangement of the entries.
\<close>

datatype code =
    Token string
  | Group string "code list" string string bool
  | Statement "code list"
  | Dict "(code \<times> code) list"

type_synonym range_order = "(string \<times> string) list \<Rightarrow> (string \<times> string) list"

text \<open>The builders the program calls. \<^verbatim>\<open>Dot\<close> appends two tokens to the statement it
  is called on, the full stop and the identifier.\<close>

definition Id :: "string \<Rightarrow> code" where "Id name = Token name"
definition Func :: code where "Func = Token ''func''"
definition Dot :: "string \<Rightarrow> code list" where "Dot name = [Token ''.'', Id name]"
definition Params :: "code list \<Rightarrow> code" where "Params ps = Group ''('' ps '','' '')'' False"
definition Block :: "code list \<Rightarrow> code" where "Block ss = Group ''{'' ss [] ''}'' True"
definition Return :: "code list \<Rightarrow> code" where "Return rs = Group ''return '' rs '','' [] False"
definition Values :: "code list \<Rightarrow> code" where "Values vs = Group ''{'' vs '','' ''}'' False"

text \<open>\<^verbatim>\<open>jen.DictFunc\<close> with the program's function: one entry
  \<^verbatim>\<open>d[jen.Id(field)] = jen.Id("o").Dot(field)\<close> per field. Every \<^verbatim>\<open>jen.Id(field)\<close> is a
  new pointer, so no entry replaces another, also when two fields have one name.\<close>

definition DictFunc :: "copyStructs \<Rightarrow> code" where
  "DictFunc s =
     Dict (map (\<lambda>field. (Statement [Id field], Statement (Id ''o'' # Dot field))) (Fields s))"

text \<open>The statement added to the file for one struct.\<close>

definition shallowCopyFunc :: "copyStructs \<Rightarrow> code" where
  "shallowCopyFunc s =
     Statement [Func,
       Params [Statement [Id ''o'', Id (StructName s)]],
       Id ''ShallowCopy'',
       Params [],
       Params [Statement [Id (StructName s)]],
       Block [Statement [Return [Statement [Id (StructName s), Values [DictFunc s]]]]]]"

subsection \<open>jennifer: rendering\<close>

definition newline :: string where
  "newline = [CHR 0x0A]"

fun join :: "string \<Rightarrow> string list \<Rightarrow> string" where
  "join sep [] = []"
| "join sep [x] = x"
| "join sep (x # y # ys) = x @ sep @ join sep (y # ys)"

text \<open>
  \<^verbatim>\<open>Dict.render\<close>: it ranges over the map, collects the rendered keys and a lookup table
  from rendered key to entry (a later visit of the same rendered key replaces the
  earlier one), sorts the keys with \<^verbatim>\<open>sort.Strings\<close> ("must order keys to ensure
  repeatable source") and writes \<^verbatim>\<open>key:value\<close> for each key of the sorted list, one per
  line when there is more than one. \<^verbatim>\<open>sort.Strings\<close> orders by bytes, as \<open>sort\<close> does
  on \<open>string\<close>. The entries arrive rendered: rendering an entry does not depend on when it
  is visited.
\<close>

definition renderDict :: "range_order \<Rightarrow> (string \<times> string) list \<Rightarrow> string" where
  "renderDict \<rho> d =
     (let visited = \<rho> d;
          keys = sort (map fst visited);
          lookup = map_of (rev visited)
      in (if length keys > 1 then newline else []) @
         concat (map (\<lambda>key. key @ '':'' @ the (lookup key) @
                        (if length keys > 1 then '','' @ newline else [])) keys))"

text \<open>A statement separates its items by a blank; a group writes its opening text, its
  items with the separator between them (each on a new line when multi-line) and its
  closing text.\<close>

fun render :: "range_order \<Rightarrow> code \<Rightarrow> string" where
  "render \<rho> (Token s) = s"
| "render \<rho> (Statement cs) = join '' '' (map (render \<rho>) cs)"
| "render \<rho> (Group opn items sep cls multi) =
     opn @ join sep (map (\<lambda>c. (if multi then newline else []) @ render \<rho> c) items)
     @ (if items \<noteq> [] \<and> multi \<and> cls \<noteq> []
        then (if sep = '','' then '','' @ newline else newline) else [])
     @ cls"
| "render \<rho> (Dict d) = renderDict \<rho> (map (\<lambda>(k, v). (render \<rho> k, render \<rho> v)) d)"

text \<open>\<^verbatim>\<open>jen.NewFile(name)\<close> with the statements added to it, and the source rendered
  for it: the package clause and the statements, each on a new line (the file is a
  multi-line group without opening text, separator or closing text).\<close>

record File =
  name :: string
  items :: "code list"

definition renderFile :: "range_order \<Rightarrow> File \<Rightarrow> string" where
  "renderFile \<rho> f =
     ''package '' @ name f @ newline @ newline @ render \<rho> (Group [] (items f) [] [] True)"

text \<open>
  \<^verbatim>\<open>File.Render\<close>: jennifer passes the rendered source through \<^verbatim>\<open>format.Source\<close>
  itself and writes the formatted bytes; when formatting fails it returns a plain error
  whose message is \<^verbatim>\<open>Error\<close>, the formatter's message, \<^verbatim>\<open>while formatting source:\<close>,
  a line break and the source as rendered. The builders used here have no other way
  to fail, and the writer is a \<^verbatim>\<open>bytes.Buffer\<close>.
\<close>

definition Render :: "libs \<Rightarrow> range_order \<Rightarrow> File \<Rightarrow> liberror + string" where
  "Render G \<rho> f =
     (let source = renderFile \<rho> f in
      case formatSource G source of
        Inl err \<Rightarrow>
          (let msg = ''Error '' @ message err @ '' while formatting source:'' @ newline @ source
           in Inl (LibError msg [msg]))
      | Inr formatted \<Rightarrow> Inr formatted)"

subsection \<open>writeOut and Generate\<close>

text \<open>The output side of \<^verbatim>\<open>genall.GenerationContext\<close>: \<^verbatim>\<open>ctx.Open\<close> (the error, if
  it fails, for a package and a file name) and \<^verbatim>\<open>Write\<close> on the opened file (the
  number of bytes written and the error, if any). A file is the package it belongs
  to, its name and the bytes that reached it.\<close>

record sink =
  Open :: "string \<Rightarrow> string \<Rightarrow> liberror option"
  Write :: "string \<Rightarrow> nat \<times> liberror option"

type_synonym outfile = "string \<times> string \<times> string"

definition writeOut ::
  "sink \<Rightarrow> package \<times> outfile list \<Rightarrow> string \<Rightarrow> package \<times> outfile list" where
  "writeOut ctx st outBytes =
     (let (root, files) = st in
      case Open ctx (PkgName root) ''zz_generated.shallowcopy.go'' of
        Some e \<Rightarrow> (AddLibraryError root e, files)
      | None \<Rightarrow>
          let (n, err) = Write ctx outBytes;
              files' = files @ [(PkgName root, ''zz_generated.shallowcopy.go'', take n outBytes)]
          in (case err of
                Some e \<Rightarrow> (AddLibraryError root e, files')
              | None \<Rightarrow>
                  if n < length outBytes then (AddError root ErrShortWrite, files')
                  else (root, files')))"

text \<open>
  The part of the loop body of \<^verbatim>\<open>Generate\<close> after \<^verbatim>\<open>EachType\<close>: build the file, render,
  format, write. The flag says whether \<^verbatim>\<open>Generate\<close> goes on with the next root
  (\<open>True\<close>) or has left by \<^verbatim>\<open>return nil\<close> (\<open>False\<close>).
\<close>

definition emit ::
  "libs \<Rightarrow> sink \<Rightarrow> range_order \<Rightarrow> package \<times> outfile list \<Rightarrow> copyStructs list
     \<Rightarrow> bool \<times> package \<times> outfile list" where
  "emit G ctx \<rho> st structs =
     (let (root, files) = st in
      if length structs > 0
      then (let code = \<lparr>name = PkgName root, items = map shallowCopyFunc structs\<rparr> in
            case Render G \<rho> code of
              Inl err \<Rightarrow> (False, AddLibraryError root err, files)
            | Inr b \<Rightarrow>
               (case formatSource G b of
                  Inl err \<Rightarrow> (False, AddLibraryError root err, files)
                | Inr outContents \<Rightarrow> (True, writeOut ctx (root, files) outContents)))
      else (True, root, files))"

text \<open>One round of the loop over \<^verbatim>\<open>ctx.Roots\<close>. The package comes type-checked
  (\<^verbatim>\<open>ctx.Checker.Check\<close>, \<^verbatim>\<open>NeedTypesInfo\<close>): \<open>TypeOf\<close> is what that produced.\<close>

definition generateRoot ::
  "libs \<Rightarrow> sink \<Rightarrow> range_order \<Rightarrow> package \<Rightarrow> outfile list
     \<Rightarrow> (panic + bool \<times> package \<times> outfile list) option" where
  "generateRoot G ctx \<rho> root files =
     (case Types root of
        Inl err \<Rightarrow> Some (Inr (False, AddLibraryError root err, files))
      | Inr infos \<Rightarrow>
         (case EachType G infos (root, []) of
            None \<Rightarrow> None
          | Some (Inl p) \<Rightarrow> Some (Inl p)
          | Some (Inr (root1, structs)) \<Rightarrow> Some (Inr (emit G ctx \<rho> (root1, files) structs))))"

text \<open>\<^verbatim>\<open>Generate\<close>: the roots in turn; the result is the roots as they are
  afterwards and the files written.\<close>

fun Generate ::
  "libs \<Rightarrow> sink \<Rightarrow> range_order \<Rightarrow> package list \<Rightarrow> outfile list
     \<Rightarrow> (panic + package list \<times> outfile list) option" where
  "Generate G ctx \<rho> [] files = Some (Inr ([], files))"
| "Generate G ctx \<rho> (root # roots) files =
     (case generateRoot G ctx \<rho> root files of
        None \<Rightarrow> None
      | Some (Inl p) \<Rightarrow> Some (Inl p)
      | Some (Inr (False, root', files')) \<Rightarrow> Some (Inr (root' # roots, files'))
      | Some (Inr (True, root', files')) \<Rightarrow>
         (case Generate G ctx \<rho> roots files' of
            None \<Rightarrow> None
          | Some (Inl p) \<Rightarrow> Some (Inl p)
          | Some (Inr (roots', files'')) \<Rightarrow> Some (Inr (root' # roots', files''))))"

subsection \<open>What a literal that assigns fields in a given order looks like\<close>

text \<open>The text between the braces of the composite literal when it assigns the fields
  \<open>fs\<close> in the order of the list: \<^verbatim>\<open>f:o . f\<close> for each, one per line when there is
  more than one (\<^verbatim>\<open>format.Source\<close> takes the blanks out later).\<close>

definition literalBody :: "string list \<Rightarrow> string" where
  "literalBody fs =
     (if length fs > 1 then newline else []) @
     concat (map (\<lambda>f. f @ '':'' @ ''o . '' @ f @ (if length fs > 1 then '','' @ newline else [])) fs)"

definition methodText :: "string \<Rightarrow> string list \<Rightarrow> string" where
  "methodText n fs =
     ''func (o '' @ n @ '') ShallowCopy () ('' @ n @ '') {'' @ newline @
     ''return '' @ n @ '' {'' @ literalBody fs @ ''}'' @ newline @ ''}''"

subsection \<open>An example package\<close>

text \<open>
  \<^verbatim>\<open>
  package example

  type S struct { B int; A string }
  func (s S) ShallowCopy() S { return s }

  // +shallowcopy:generate=true
  type P *S

  // +shallowcopy:generate=true
  type Count int

  // +shallowcopy:generate=true
  type hidden struct { x int }

  // +shallowcopy:generate=true
  type User struct { Name string; ID int }

  // +shallowcopy:generate=false
  type Plain struct { V int }

  // +shallowcopy:generate=true
  type UserRef *User

  type Alias = int

  type secret struct { k int }

  // +shallowcopy:generate=true
  type Temp float64
  func (t Temp) Kelvin() float64 { return float64(t) + 273.15 }
  func (t Temp) ShallowCopy() Temp { return t }
  \<close>
  The types are numbered: 0 is the invalid type, 1 is \<^verbatim>\<open>P\<close> and 2 its underlying
  \<^verbatim>\<open>*S\<close>, 3 is \<^verbatim>\<open>S\<close> and 4 its struct, 5 is \<^verbatim>\<open>Count\<close> and 6 is \<^verbatim>\<open>int\<close>, 7 is
  \<^verbatim>\<open>hidden\<close> and 8 its struct, 9 is \<^verbatim>\<open>User\<close> and 10 its struct, 11 is \<^verbatim>\<open>Plain\<close> and
  12 its struct, 13 is \<^verbatim>\<open>Temp\<close> and 14 is \<^verbatim>\<open>float64\<close>, 15 is \<^verbatim>\<open>UserRef\<close> and 16 its
  underlying \<^verbatim>\<open>*User\<close>, 17 is \<^verbatim>\<open>secret\<close> and 18 its struct. Looking
  \<^verbatim>\<open>ShallowCopy\<close> up finds the method of \<^verbatim>\<open>S\<close> on \<^verbatim>\<open>S\<close> and, through the pointer, on
  \<^verbatim>\<open>*S\<close> (each the only method, index 0), and the method of \<^verbatim>\<open>Temp\<close> on \<^verbatim>\<open>Temp\<close> (its
  second method, index 1); on \<^verbatim>\<open>P\<close> it finds nothing, a named pointer type has no
  methods.
  The declaration nodes are 101 for \<^verbatim>\<open>S\<close>, 103 for \<^verbatim>\<open>P\<close>, 105 for \<^verbatim>\<open>Count\<close>,
  107 for \<^verbatim>\<open>hidden\<close>, 109 for \<^verbatim>\<open>User\<close>, 111 for \<^verbatim>\<open>Plain\<close>, 113 for \<^verbatim>\<open>Temp\<close>,
  115 for \<^verbatim>\<open>UserRef\<close>, 117 for \<^verbatim>\<open>Alias\<close> and 119 for \<^verbatim>\<open>secret\<close>.
\<close>

text \<open>\<^verbatim>\<open>ast.IsExported\<close> asks \<^verbatim>\<open>unicode.IsUpper\<close> about the first rune of the name. For a
  name whose first rune is ASCII, as every name of the example is, that is the first
  byte being one of \<^verbatim>\<open>A\<close> to \<^verbatim>\<open>Z\<close>. \<open>startsUpper\<close> is that test and stands for
  \<^verbatim>\<open>ast.IsExported\<close> on such names only: for a name that starts with a rune outside
  ASCII it answers no, also where \<^verbatim>\<open>unicode.IsUpper\<close> says yes.\<close>

definition startsUpper :: "string \<Rightarrow> bool" where
  "startsUpper n = (case n of [] \<Rightarrow> False | c # _ \<Rightarrow> CHR ''A'' \<le> c \<and> c \<le> CHR ''Z'')"

definition exampleLibs :: libs where
  "exampleLibs = \<lparr>
     kind_of = (\<lambda>t. if t \<in> {1, 3, 5, 7, 9, 11, 13, 15, 17} then Named
                     else if t \<in> {2, 16} then Pointer
                     else if t \<in> {4, 8, 10, 12, 18} then Struct
                     else if t \<in> {0, 6, 14} then Basic else Other),
     Underlying = (\<lambda>t. if t \<in> {1, 3, 5, 7, 9, 11, 13, 15, 17} then Suc t else t),
     Elem = (\<lambda>t. if t = 2 then 3 else if t = 16 then 9 else t),
     LookupShallowCopy = (\<lambda>t. if t \<in> {2, 3} then (Some (Signature None (Some 1)), [0])
                               else if t = 13 then (Some (Signature None (Some 1)), [1])
                               else (None, [])),
     NumFields = (\<lambda>t. if t \<in> {4, 10} then 2 else if t \<in> {8, 12, 18} then 1 else 0),
     Field_Name = (\<lambda>t i. if t = 4 then (if i = 0 then ''B'' else ''A'')
                         else if t = 8 then ''x''
                         else if t = 10 then (if i = 0 then ''Name'' else ''ID'')
                         else if t = 12 then ''V''
                         else ''k''),
     Invalid = 0,
     IsExported = startsUpper,
     formatSource = Inr \<rparr>"

definition marked :: "bool \<Rightarrow> string \<Rightarrow> marker_value list" where
  "marked b = (\<lambda>n. if n = ''shallowcopy:generate'' then [BoolValue b] else [])"

definition infoS :: TypeInfo where
  "infoS = \<lparr>Name = ''S'', RawSpec = 101, Markers = (\<lambda>n. [])\<rparr>"
definition infoP :: TypeInfo where
  "infoP = \<lparr>Name = ''P'', RawSpec = 103, Markers = marked True\<rparr>"
definition infoCount :: TypeInfo where
  "infoCount = \<lparr>Name = ''Count'', RawSpec = 105, Markers = marked True\<rparr>"
definition infoHidden :: TypeInfo where
  "infoHidden = \<lparr>Name = ''hidden'', RawSpec = 107, Markers = marked True\<rparr>"
definition infoUser :: TypeInfo where
  "infoUser = \<lparr>Name = ''User'', RawSpec = 109, Markers = marked True\<rparr>"
definition infoPlain :: TypeInfo where
  "infoPlain = \<lparr>Name = ''Plain'', RawSpec = 111, Markers = marked False\<rparr>"
definition infoTemp :: TypeInfo where
  "infoTemp = \<lparr>Name = ''Temp'', RawSpec = 113, Markers = marked True\<rparr>"
definition infoUserRef :: TypeInfo where
  "infoUserRef = \<lparr>Name = ''UserRef'', RawSpec = 115, Markers = marked True\<rparr>"
definition infoAlias :: TypeInfo where
  "infoAlias = \<lparr>Name = ''Alias'', RawSpec = 117, Markers = (\<lambda>n. [])\<rparr>"

definition infoSecret :: TypeInfo where
  "infoSecret = \<lparr>Name = ''secret'', RawSpec = 119, Markers = (\<lambda>n. [])\<rparr>"

definition examplePkg :: package where
  "examplePkg = \<lparr>
     PkgName = ''example'',
     TypeOf = (\<lambda>i. if i = 101 then Some 3 else if i = 103 then Some 1
                    else if i = 105 then Some 5 else if i = 107 then Some 7
                    else if i = 109 then Some 9 else if i = 111 then Some 11
                    else if i = 113 then Some 13 else if i = 115 then Some 15
                    else if i = 117 then Some 6 else if i = 119 then Some 17
                    else None),
     Types = Inr [infoS, infoP, infoCount, infoHidden, infoUser, infoPlain, infoUserRef,
                  infoAlias, infoSecret, infoTemp],
     errors = [] \<rparr>"

text \<open>What the callback collects for \<^verbatim>\<open>User\<close>; a \<^verbatim>\<open>format.Source\<close> that rejects
  every input with one scanner error; and one that puts a comment line in front of
  its input and rejects an input that starts with a comment, so that it accepts the
  rendered source and rejects what it made of it.\<close>

definition userSpec :: copyStructs where
  "userSpec = \<lparr>StructName = ''User'', Fields = [''Name'', ''ID'']\<rparr>"



text \<open>A library in which the walk does not end: every type is basic and has a new type
  as its underlying type. go/types has no such types (there every type that is not
  named is its own underlying type); nothing in the program excludes them.\<close>

definition endlessLibs :: libs where
  "endlessLibs = \<lparr>
     kind_of = (\<lambda>t. Basic), Underlying = Suc, Elem = (\<lambda>t. t),
     LookupShallowCopy = (\<lambda>t. (None, [])), NumFields = (\<lambda>t. 0),
     Field_Name = (\<lambda>t i. []), Invalid = 0, IsExported = (\<lambda>n. True),
     formatSource = Inr \<rparr>"

definition exampleSink :: sink where
  "exampleSink = \<lparr> Open = (\<lambda>p f. None), Write = (\<lambda>b. (length b, None)) \<rparr>"

section \<open>Properties\<close>

subsection \<open>The loop of shouldBeCopied\<close>

text \<open>Three facts about the loop, each by induction on the position in the chain of
  \<^verbatim>\<open>Underlying()\<close> links: it leaves when the chain reaches a fixed point; over basic
  types without a \<^verbatim>\<open>ShallowCopy\<close> it leaves by its condition, at the type it started
  from or at a basic type; and it returns true when a \<^verbatim>\<open>ShallowCopy\<close> is found further
  along the chain.\<close>

lemma alias_loop_fixed:
  "(Underlying G ^^ Suc n) u = (Underlying G ^^ n) u \<Longrightarrow> \<exists>e. alias_loop G l u = Some e"
proof (induction n arbitrary: l u)
  case 0
  then have fx: "Underlying G u = u" by simp
  have "alias_loop G u (Underlying G u) = Some (Converged u)"
    by (subst alias_loop.simps) (simp add: fx)
  then show ?case
    by (subst alias_loop.simps) auto
next
  case (Suc n)
  have "(Underlying G ^^ Suc n) (Underlying G u) = (Underlying G ^^ n) (Underlying G u)"
    using Suc.prems by (simp only: funpow_Suc_right o_apply)
  then obtain e where "alias_loop G u (Underlying G u) = Some e"
    using Suc.IH by blast
  then show ?case
    by (subst alias_loop.simps) auto
qed

lemma alias_loop_basic:
  assumes "(Underlying G ^^ Suc n) u = (Underlying G ^^ n) u"
    and "\<forall>k\<le>n. kind_of G ((Underlying G ^^ k) u) = Basic"
    and "\<forall>k\<le>n. hasShallowCopyMethod G ((Underlying G ^^ k) u) = Inr False"
  shows "\<exists>x. alias_loop G l u = Some (Converged x) \<and> (x = l \<or> kind_of G x = Basic)"
  using assms
proof (induction n arbitrary: l u)
  case 0
  then have fx: "Underlying G u = u" and b: "kind_of G u = Basic"
    and h: "hasShallowCopyMethod G u = Inr False" by simp_all
  have "alias_loop G u (Underlying G u) = Some (Converged u)"
    by (subst alias_loop.simps) (simp add: fx)
  then show ?case
    by (subst alias_loop.simps) (simp add: b h)
next
  case (Suc n)
  have b: "kind_of G u = Basic" and h: "hasShallowCopyMethod G u = Inr False"
    using Suc.prems(2,3)[rule_format, of 0] by simp_all
  have 1: "(Underlying G ^^ Suc n) (Underlying G u) = (Underlying G ^^ n) (Underlying G u)"
    using Suc.prems(1) by (simp only: funpow_Suc_right o_apply)
  have 2: "\<forall>k\<le>n. kind_of G ((Underlying G ^^ k) (Underlying G u)) = Basic"
    using Suc.prems(2) by (auto simp: funpow_swap1 dest: spec[where x="Suc _"])
  have 3: "\<forall>k\<le>n. hasShallowCopyMethod G ((Underlying G ^^ k) (Underlying G u)) = Inr False"
    using Suc.prems(3) by (auto simp: funpow_swap1 dest: spec[where x="Suc _"])
  obtain x where "alias_loop G u (Underlying G u) = Some (Converged x)"
    and "x = u \<or> kind_of G x = Basic"
    using Suc.IH[OF 1 2 3] by blast
  then show ?case
    by (subst alias_loop.simps) (auto simp: b h)
qed

lemma alias_loop_method:
  assumes "hasShallowCopyMethod G l = Inr False"
    and "hasShallowCopyMethod G ((Underlying G ^^ m) (Underlying G l)) = Inr True"
    and "\<forall>k<m. \<not> isl (hasShallowCopyMethod G ((Underlying G ^^ k) (Underlying G l)))"
  shows "alias_loop G l (Underlying G l) = Some ReturnedTrue"
  using assms
proof (induction m arbitrary: l)
  case 0
  then have "Underlying G l \<noteq> l" by auto
  then show ?case using 0
    by (subst alias_loop.simps) simp
next
  case (Suc m)
  let ?u = "Underlying G l"
  have ne: "?u \<noteq> l"
  proof
    assume "?u = l"
    then have "(Underlying G ^^ k) l = l" for k by (induction k) simp_all
    with \<open>?u = l\<close> Suc.prems(1,2) show False by simp
  qed
  have nl: "\<not> isl (hasShallowCopyMethod G ?u)"
    using Suc.prems(3)[rule_format, of 0] by simp
  show ?case
  proof (cases "hasShallowCopyMethod G ?u = Inr False \<and> kind_of G ?u = Basic")
    case False
    then show ?thesis using ne nl
      by (subst alias_loop.simps) (cases "hasShallowCopyMethod G ?u"; auto)
  next
    case True
    have 2: "hasShallowCopyMethod G ((Underlying G ^^ m) (Underlying G ?u)) = Inr True"
      using Suc.prems(2) by (simp add: funpow_swap1)
    have 3: "\<forall>k<m. \<not> isl (hasShallowCopyMethod G ((Underlying G ^^ k) (Underlying G ?u)))"
      using Suc.prems(3) by (auto simp: funpow_swap1 dest: spec[where x="Suc _"])
    have "alias_loop G ?u (Underlying G ?u) = Some ReturnedTrue"
      using Suc.IH[OF _ 2 3] True by simp
    then show ?thesis using ne True
      by (subst alias_loop.simps) simp
  qed
qed

text \<open>Where every type that is not named is its own underlying type, as in go/types,
  the loop always leaves, after two rounds at most. Without that it need not: in
  \<open>endlessLibs\<close> it runs forever.\<close>

lemma alias_loop_gotypes:
  assumes "\<forall>t. kind_of G t \<noteq> Named \<longrightarrow> Underlying G t = t"
  shows "\<exists>e. alias_loop G l u = Some e"
proof (cases "kind_of G u = Basic")
  case True
  then have "Underlying G u = u" using assms by simp
  then have "(Underlying G ^^ Suc 0) u = (Underlying G ^^ 0) u" by simp
  then show ?thesis by (rule alias_loop_fixed)
next
  case False
  then show ?thesis
    by (subst alias_loop.simps) auto
qed

lemma alias_loop_endless:
  assumes "l < u"
  shows "alias_loop endlessLibs l u = None"
proof (rule ccontr)
  assume "alias_loop endlessLibs l u \<noteq> None"
  then obtain e where e: "alias_loop endlessLibs l u = Some e" by auto
  have "endlessLibs = endlessLibs \<longrightarrow> \<not> l < u"
  proof (rule alias_loop.raw_induct[where P = "\<lambda>G l u e. G = endlessLibs \<longrightarrow> \<not> l < u", OF _ e])
    fix f G l u e
    assume IH: "\<And>G l u e. f G l u = Some e \<Longrightarrow> G = endlessLibs \<longrightarrow> \<not> l < u"
      and body: "(if u = l then Some (Converged l)
           else if isl (hasShallowCopyMethod G u)
             then Some (Panicked (projl (hasShallowCopyMethod G u)))
           else if projr (hasShallowCopyMethod G u) then Some ReturnedTrue
           else if kind_of G u \<noteq> Basic then Some ReturnedTrue
           else f G u (Underlying G u)) = Some e"
    show "G = endlessLibs \<longrightarrow> \<not> l < u"
    proof (intro impI notI)
      assume G: "G = endlessLibs" and lu: "l < u"
      then have "f G u (Suc u) = Some e"
        using body by (simp add: endlessLibs_def hasShallowCopyMethod_def)
      then have "\<not> u < Suc u" using IH G by blast
      then show False by simp
    qed
  qed
  with assms show False by simp
qed

subsection \<open>hasShallowCopyMethod and the lookup\<close>

text \<open>What the verdict of \<^verbatim>\<open>hasShallowCopyMethod\<close> means for the result of the lookup:
  it is true for a member found at index depth one whose type is a signature with no
  parameters and one result, and it panics exactly for a member at depth one that is
  not a function.\<close>

lemma hasShallowCopyMethod_found:
  assumes "LookupShallowCopy G t = (Some (Signature ps rs), ind)"
    and "length ind = 1" and "ps = None \<or> ps = Some 0" and "rs = Some 1"
  shows "hasShallowCopyMethod G t = Inr True"
  using assms by (auto simp: hasShallowCopyMethod_def)

lemma hasShallowCopyMethod_panics:
  "isl (hasShallowCopyMethod G t) \<longleftrightarrow>
     length (snd (LookupShallowCopy G t)) = 1
     \<and> fst (LookupShallowCopy G t) = Some NotSignature"
  by (cases "LookupShallowCopy G t")
     (auto simp: hasShallowCopyMethod_def split: option.splits obj_type.splits)

subsection \<open>The callback and EachType\<close>

text \<open>The callback either leaves the slice as it is or appends one entry, and it appends
  only for a declaration that is enabled and exported.\<close>

lemma callback_cases:
  assumes "callback G (root, structs) info = Some (Inr (x, root', structs'))"
  shows "structs' = structs \<and> x \<noteq> Appended
       \<or> (x = Appended \<and> enabledOnType info = Inr True \<and> IsExported G (Name info)
          \<and> (\<exists>fs. structs' = structs @ [\<lparr>StructName = Name info, Fields = fs\<rparr>]))"
proof -
  have en: "enabledOnType info = Inr True \<or> enabledOnType info = Inr False"
    using assms by (cases "enabledOnType info") (auto simp: callback_def)
  show ?thesis
  proof (cases "enabledOnType info = Inr True")
    case False
    with en assms show ?thesis by (auto simp: callback_def)
  next
    case True
    show ?thesis
    proof (cases "IsExported G (Name info)")
      case False
      then have "shouldBeCopied G root info = Some (Inr (False, root))"
        by (simp add: shouldBeCopied_def)
      with assms True show ?thesis by (auto simp: callback_def)
    next
      case ex: True
      with assms True show ?thesis
        by (auto simp: callback_def Let_def
            split: option.splits sum.splits bool.splits if_splits prod.splits)
    qed
  qed
qed

lemma EachType_exported:
  assumes "EachType G infos (root, structs) = Some (Inr (root', structs'))"
    and "\<forall>s\<in>set structs. IsExported G (StructName s)"
  shows "\<forall>s\<in>set structs'. IsExported G (StructName s)"
  using assms
proof (induction infos arbitrary: root structs)
  case Nil
  then show ?case by simp
next
  case (Cons info infos)
  from Cons.prems(1) obtain x r1 s1 where
    cb: "callback G (root, structs) info = Some (Inr (x, r1, s1))"
    and rest: "EachType G infos (r1, s1) = Some (Inr (root', structs'))"
    by (auto split: option.splits sum.splits)
  have "\<forall>s\<in>set s1. IsExported G (StructName s)"
    using callback_cases[OF cb] Cons.prems(2) by auto
  with Cons.IH[OF rest] show ?case by blast
qed

subsection \<open>Rendering the dictionary\<close>

text \<open>Whatever order the map is ranged in, the dictionary the program builds is rendered
  with its keys in ascending order: the sorted list of keys does not depend on the
  order of the visit, and the value found for a key does not either, because every
  entry with that key has the same value.\<close>

lemma sort_range_order:
  fixes xs ys :: "'a::linorder list"
  assumes "mset ys = mset xs"
  shows "sort ys = sort xs"
  by (rule properties_for_sort) (simp_all add: assms)

lemma map_of_determined:
  assumes "\<forall>(k, v)\<in>set es. v = f k" and "k \<in> fst ` set es"
  shows "map_of es k = Some (f k)"
proof -
  from assms(2) obtain v where "map_of es k = Some v"
    by (cases "map_of es k") (auto simp: map_of_eq_None_iff)
  moreover from this have "(k, v) \<in> set es" by (rule map_of_SomeD)
  ultimately show ?thesis using assms(1) by auto
qed

lemma renderDict_sorted:
  assumes perm: "mset (\<rho> d) = mset d"
    and d: "d = map (\<lambda>f. (f, ''o . '' @ f)) fs"
  shows "renderDict \<rho> d = literalBody (sort fs)"
proof -
  have fst_d: "map fst d = fs" by (simp add: d o_def)
  have "mset (map fst (\<rho> d)) = mset (map fst d)"
    using perm by (metis mset_map)
  then have keys: "sort (map fst (\<rho> d)) = sort fs"
    using sort_range_order fst_d by metis
  have set_eq: "set (\<rho> d) = set d" using perm by (rule mset_eq_setD)
  have det: "\<forall>(k, v)\<in>set (rev (\<rho> d)). v = ''o . '' @ k"
    using set_eq d by auto
  have look: "map_of (rev (\<rho> d)) key = Some (''o . '' @ key)" if "key \<in> set (sort fs)" for key
  proof -
    from that have "key \<in> fst ` set d" using fst_d by (metis set_map set_sort)
    then have "key \<in> fst ` set (rev (\<rho> d))" using set_eq by simp
    with det show ?thesis by (rule map_of_determined)
  qed
  have M: "map (\<lambda>key. key @ '':'' @ the (map_of (rev (\<rho> d)) key) @
                (if length (sort fs) > 1 then '','' @ newline else [])) (sort fs)
      = map (\<lambda>f. f @ '':'' @ ''o . '' @ f @
                (if length (sort fs) > 1 then '','' @ newline else [])) (sort fs)"
    by (rule map_cong) (simp_all add: look)
  have "renderDict \<rho> d =
      (if length (sort fs) > 1 then newline else []) @
      concat (map (\<lambda>key. key @ '':'' @ the (map_of (rev (\<rho> d)) key) @
                (if length (sort fs) > 1 then '','' @ newline else [])) (sort fs))"
    unfolding renderDict_def Let_def keys ..
  also have "\<dots> = literalBody (sort fs)"
    by (simp only: literalBody_def M)
  finally show ?thesis .
qed

lemma render_DictFunc:
  assumes "\<forall>d. mset (\<rho> d) = mset d"
  shows "render \<rho> (DictFunc s) = literalBody (sort (Fields s))"
proof -
  have E: "map (\<lambda>(k, v). (render \<rho> k, render \<rho> v))
          (map (\<lambda>field. (Statement [Id field], Statement (Id ''o'' # Dot field))) (Fields s))
        = map (\<lambda>f. (f, ''o . '' @ f)) (Fields s)"
    by (simp add: Id_def Dot_def)
  have "render \<rho> (DictFunc s) = renderDict \<rho> (map (\<lambda>f. (f, ''o . '' @ f)) (Fields s))"
    unfolding DictFunc_def render.simps E ..
  also have "\<dots> = literalBody (sort (Fields s))"
    by (rule renderDict_sorted) (simp_all add: assms)
  finally show ?thesis .
qed

lemma render_shallowCopyFunc:
  assumes "\<forall>d. mset (\<rho> d) = mset d"
  shows "render \<rho> (shallowCopyFunc s) = methodText (StructName s) (sort (Fields s))"
  using render_DictFunc[OF assms, of s]
  by (simp add: shallowCopyFunc_def methodText_def Func_def Params_def Id_def Block_def
        Return_def Values_def)

lemma renderFile_range_order:
  assumes "\<forall>d. mset (\<rho>1 d) = mset d" and "\<forall>d. mset (\<rho>2 d) = mset d"
  shows "renderFile \<rho>1 \<lparr>name = n, items = map shallowCopyFunc structs\<rparr>
       = renderFile \<rho>2 \<lparr>name = n, items = map shallowCopyFunc structs\<rparr>"
  by (simp add: renderFile_def render_shallowCopyFunc[OF assms(1)]
        render_shallowCopyFunc[OF assms(2)] o_def)

lemma Render_range_order:
  assumes "\<forall>d. mset (\<rho>1 d) = mset d" and "\<forall>d. mset (\<rho>2 d) = mset d"
  shows "Render G \<rho>1 \<lparr>name = n, items = map shallowCopyFunc structs\<rparr>
       = Render G \<rho>2 \<lparr>name = n, items = map shallowCopyFunc structs\<rparr>"
  unfolding Render_def renderFile_range_order[OF assms] ..

lemma emit_range_order:
  assumes "\<forall>d. mset (\<rho>1 d) = mset d" and "\<forall>d. mset (\<rho>2 d) = mset d"
  shows "emit G ctx \<rho>1 st structs = emit G ctx \<rho>2 st structs"
  by (cases st) (simp add: emit_def Render_range_order[OF assms])

lemma generateRoot_range_order:
  assumes "\<forall>d. mset (\<rho>1 d) = mset d" and "\<forall>d. mset (\<rho>2 d) = mset d"
  shows "generateRoot G ctx \<rho>1 root files = generateRoot G ctx \<rho>2 root files"
  by (simp add: generateRoot_def emit_range_order[OF assms] cong: sum.case_cong option.case_cong)

text \<open>When the rendered source does not format, the error that jennifer's
  \<^verbatim>\<open>Render\<close> returns carries that source.\<close>

lemma Render_failure_carries_source:
  assumes "formatSource G (renderFile \<rho> f) = Inl err"
  shows "\<exists>msg. Render G \<rho> f = Inl (LibError msg [msg])
           \<and> msg = ''Error '' @ message err @ '' while formatting source:'' @ newline
                   @ renderFile \<rho> f"
  using assms by (simp add: Render_def Let_def)

subsection \<open>The example package, evaluated\<close>

lemma exampleLibs_simps:
  "kind_of exampleLibs t =
     (if t \<in> {1, 3, 5, 7, 9, 11, 13, 15, 17} then Named
      else if t \<in> {2, 16} then Pointer
      else if t \<in> {4, 8, 10, 12, 18} then Struct
      else if t \<in> {0, 6, 14} then Basic else Other)"
  "Underlying exampleLibs t = (if t \<in> {1, 3, 5, 7, 9, 11, 13, 15, 17} then Suc t else t)"
  "Invalid exampleLibs = 0"
  "IsExported exampleLibs = startsUpper"
  "hasShallowCopyMethod exampleLibs t = Inr (t \<in> {2, 3, 13})"
  by (simp_all add: exampleLibs_def hasShallowCopyMethod_def)

lemmas info_defs =
  infoS_def infoP_def infoCount_def infoHidden_def infoUser_def infoPlain_def infoTemp_def
  infoUserRef_def infoAlias_def infoSecret_def

lemma example_loops:
  "alias_loop exampleLibs 5 6 = Some (Converged 6)"
  "alias_loop exampleLibs 9 10 = Some ReturnedTrue"
  "alias_loop exampleLibs 7 8 = Some ReturnedTrue"
  "alias_loop exampleLibs 11 12 = Some ReturnedTrue"
  by code_simp+

lemma example_shouldBeCopied:
  "shouldBeCopied exampleLibs examplePkg infoS = Some (Inr (True, examplePkg))"
  "shouldBeCopied exampleLibs examplePkg infoP = Some (Inr (False, examplePkg))"
  "shouldBeCopied exampleLibs examplePkg infoCount = Some (Inr (False, examplePkg))"
  "shouldBeCopied exampleLibs examplePkg infoHidden = Some (Inr (False, examplePkg))"
  "shouldBeCopied exampleLibs examplePkg infoUser = Some (Inr (True, examplePkg))"
  "shouldBeCopied exampleLibs examplePkg infoPlain = Some (Inr (True, examplePkg))"
  "shouldBeCopied exampleLibs examplePkg infoTemp = Some (Inr (True, examplePkg))"
  "shouldBeCopied exampleLibs examplePkg infoUserRef = Some (Inr (False, examplePkg))"
  "shouldBeCopied exampleLibs examplePkg infoAlias = Some (Inl TypeAssertion)"
  "shouldBeCopied exampleLibs examplePkg infoSecret = Some (Inr (False, examplePkg))"
  by (simp_all add: shouldBeCopied_def info_defs examplePkg_def exampleLibs_simps
        startsUpper_def example_loops)

lemma example_exported:
  "IsExported exampleLibs (Name infoS)" "IsExported exampleLibs (Name infoP)"
  "IsExported exampleLibs (Name infoCount)" "\<not> IsExported exampleLibs (Name infoHidden)"
  "IsExported exampleLibs (Name infoUser)" "IsExported exampleLibs (Name infoPlain)"
  "IsExported exampleLibs (Name infoTemp)" "IsExported exampleLibs (Name infoUserRef)"
  "IsExported exampleLibs (Name infoAlias)" "\<not> IsExported exampleLibs (Name infoSecret)"
  by (simp_all add: exampleLibs_simps info_defs startsUpper_def)

lemma example_TypeOf:
  "TypeOf examplePkg (RawSpec infoS) = Some 3" "TypeOf examplePkg (RawSpec infoP) = Some 1"
  "TypeOf examplePkg (RawSpec infoCount) = Some 5"
  "TypeOf examplePkg (RawSpec infoHidden) = Some 7"
  "TypeOf examplePkg (RawSpec infoUser) = Some 9"
  "TypeOf examplePkg (RawSpec infoPlain) = Some 11"
  "TypeOf examplePkg (RawSpec infoTemp) = Some 13"
  "TypeOf examplePkg (RawSpec infoUserRef) = Some 15"
  "TypeOf examplePkg (RawSpec infoAlias) = Some 6"
  "TypeOf examplePkg (RawSpec infoSecret) = Some 17"
  by (simp_all add: info_defs examplePkg_def)

lemma example_enabled:
  "enabledOnType infoS = Inr False" "enabledOnType infoP = Inr True"
  "enabledOnType infoCount = Inr True" "enabledOnType infoHidden = Inr True"
  "enabledOnType infoUser = Inr True" "enabledOnType infoPlain = Inr False"
  "enabledOnType infoTemp = Inr True" "enabledOnType infoUserRef = Inr True"
  "enabledOnType infoAlias = Inr False" "enabledOnType infoSecret = Inr False"
  by (simp_all add: enabledOnType_def Get_def enableTypeMarker_Name_def info_defs marked_def)

lemma example_fieldNames:
  "fieldNames exampleLibs 10 = [''Name'', ''ID'']"
  by (simp add: fieldNames_def exampleLibs_def upt_rec)

lemma example_callback:
  "callback exampleLibs (examplePkg, ss) infoS = Some (Inr (NotEnabled, examplePkg, ss))"
  "callback exampleLibs (examplePkg, ss) infoP = Some (Inr (NotCopied, examplePkg, ss))"
  "callback exampleLibs (examplePkg, ss) infoCount = Some (Inr (NotCopied, examplePkg, ss))"
  "callback exampleLibs (examplePkg, ss) infoHidden = Some (Inr (NotCopied, examplePkg, ss))"
  "callback exampleLibs (examplePkg, ss) infoUser = Some (Inr (Appended, examplePkg, ss @ [userSpec]))"
  "callback exampleLibs (examplePkg, ss) infoPlain = Some (Inr (NotEnabled, examplePkg, ss))"
  "callback exampleLibs (examplePkg, ss) infoUserRef = Some (Inr (NotCopied, examplePkg, ss))"
  "callback exampleLibs (examplePkg, ss) infoAlias = Some (Inr (NotEnabled, examplePkg, ss))"
  "callback exampleLibs (examplePkg, ss) infoSecret = Some (Inr (NotEnabled, examplePkg, ss))"
  "callback exampleLibs (examplePkg, ss) infoTemp =
     Some (Inr (NotStruct,
       examplePkg\<lparr>errors := [ErrFromNode ''Temp is not a struct type'' 113]\<rparr>, ss))"
  by (simp_all add: callback_def example_enabled example_shouldBeCopied example_TypeOf
        exampleLibs_simps example_fieldNames userSpec_def)
     (simp_all add: info_defs AddError_def examplePkg_def)

lemma example_EachType:
  "EachType exampleLibs
     [infoS, infoP, infoCount, infoHidden, infoUser, infoPlain, infoUserRef, infoAlias,
      infoSecret, infoTemp] (examplePkg, []) =
   Some (Inr (examplePkg\<lparr>errors := [ErrFromNode ''Temp is not a struct type'' 113]\<rparr>,
              [userSpec]))"
  by (simp add: example_callback)

lemma example_renderFile:
  "renderFile id \<lparr>name = ''example'', items = map shallowCopyFunc [userSpec]\<rparr> =
     ''package example'' @ newline @ newline @ newline @
     ''func (o User) ShallowCopy () (User) {'' @ newline @
     ''return User {'' @ newline @
     ''ID:o . ID,'' @ newline @
     ''Name:o . Name,'' @ newline @
     ''}'' @ newline @ ''}''"
  by (simp add: renderFile_def shallowCopyFunc_def DictFunc_def userSpec_def renderDict_def
        Func_def Params_def Id_def Block_def Return_def Values_def Dot_def)


lemma example_Generate:
  "Generate exampleLibs exampleSink id [examplePkg] [] =
     Some (Inr ([examplePkg\<lparr>errors := [ErrFromNode ''Temp is not a struct type'' 113]\<rparr>],
                [(''example'', ''zz_generated.shallowcopy.go'',
                  ''package example'' @ newline @ newline @ newline @
                  ''func (o User) ShallowCopy () (User) {'' @ newline @
                  ''return User {'' @ newline @
                  ''ID:o . ID,'' @ newline @
                  ''Name:o . Name,'' @ newline @
                  ''}'' @ newline @ ''}'')]))"
proof -
  have t: "Types examplePkg = Inr [infoS, infoP, infoCount, infoHidden, infoUser, infoPlain,
            infoUserRef, infoAlias, infoSecret, infoTemp]"
    by (simp add: examplePkg_def)
  have n: "PkgName (examplePkg\<lparr>errors := es\<rparr>) = ''example''" for es
    by (simp add: examplePkg_def)
  have f: "formatSource exampleLibs = Inr" by (simp add: exampleLibs_def)
  have r: "renderFile id \<lparr>name = ''example'', items = [shallowCopyFunc userSpec]\<rparr> =
     ''package example'' @ newline @ newline @ newline @
     ''func (o User) ShallowCopy () (User) {'' @ newline @
     ''return User {'' @ newline @
     ''ID:o . ID,'' @ newline @
     ''Name:o . Name,'' @ newline @
     ''}'' @ newline @ ''}''"
    using example_renderFile by simp
  have e: "emit exampleLibs exampleSink id
             (examplePkg\<lparr>errors := [ErrFromNode ''Temp is not a struct type'' 113]\<rparr>, [])
             [userSpec] =
           (True, examplePkg\<lparr>errors := [ErrFromNode ''Temp is not a struct type'' 113]\<rparr>,
            [(''example'', ''zz_generated.shallowcopy.go'',
              ''package example'' @ newline @ newline @ newline @
              ''func (o User) ShallowCopy () (User) {'' @ newline @
              ''return User {'' @ newline @
              ''ID:o . ID,'' @ newline @
              ''Name:o . Name,'' @ newline @
              ''}'' @ newline @ ''}'')])"
    by (simp add: emit_def n Render_def f r writeOut_def exampleSink_def)
  have g: "generateRoot exampleLibs exampleSink id examplePkg [] =
      Some (Inr (emit exampleLibs exampleSink id
             (examplePkg\<lparr>errors := [ErrFromNode ''Temp is not a struct type'' 113]\<rparr>, [])
             [userSpec]))"
    by (simp only: generateRoot_def t example_EachType sum.case option.case prod.case)
  show ?thesis
    by (simp add: g e)
qed

section \<open>The claims\<close>

subsection \<open>C1: a manual ShallowCopy makes the type eligible\<close>

text \<open>
  Claim C1, as amended. Take an exported declaration whose type is a named type, and
  let the lookup of \<^verbatim>\<open>ShallowCopy\<close> on the type itself or on a type reached from it by
  \<^verbatim>\<open>Underlying()\<close> links find a member at index depth one (an index sequence of length
  one) whose type is a signature with no parameters and exactly one result, while no
  lookup before it on the chain finds, at depth one, a member that is not a function
  (on that the program panics). If the underlying type of the declared type is not a
  pointer, \<^verbatim>\<open>shouldBeCopied\<close> returns true, whatever the chain ends in. If it is a
  pointer, the method check is skipped and \<^verbatim>\<open>shouldBeCopied\<close> returns false.
\<close>

theorem manual_method_copied:
  assumes "IsExported G (Name info)"
    and "TypeOf pkg (RawSpec info) = Some t"
    and "t \<noteq> Invalid G"
    and "kind_of G t = Named"
    and "LookupShallowCopy G ((Underlying G ^^ n) t) = (Some (Signature ps rs), ind)"
    and "length ind = 1"
    and "ps = None \<or> ps = Some 0"
    and "rs = Some 1"
    and "\<forall>k<n. \<not> (length (snd (LookupShallowCopy G ((Underlying G ^^ k) t))) = 1
                  \<and> fst (LookupShallowCopy G ((Underlying G ^^ k) t)) = Some NotSignature)"
  shows "(kind_of G (Underlying G t) \<noteq> Pointer
            \<longrightarrow> shouldBeCopied G pkg info = Some (Inr (True, pkg)))
       \<and> (kind_of G (Underlying G t) = Pointer
            \<longrightarrow> shouldBeCopied G pkg info = Some (Inr (False, pkg)))"
proof (intro conjI impI)
  assume ptr: "kind_of G (Underlying G t) = Pointer"
  then show "shouldBeCopied G pkg info = Some (Inr (False, pkg))"
    using assms(1-4) by (simp add: shouldBeCopied_def)
next
  assume np: "kind_of G (Underlying G t) \<noteq> Pointer"
  have found: "hasShallowCopyMethod G ((Underlying G ^^ n) t) = Inr True"
    using assms(5-8) by (rule hasShallowCopyMethod_found)
  have nopanic: "\<forall>k<n. \<not> isl (hasShallowCopyMethod G ((Underlying G ^^ k) t))"
    using assms(9) by (simp add: hasShallowCopyMethod_panics)
  show "shouldBeCopied G pkg info = Some (Inr (True, pkg))"
  proof (cases "hasShallowCopyMethod G t = Inr True")
    case True
    then show ?thesis using assms(1-4) np by (simp add: shouldBeCopied_def)
  next
    case False
    then obtain m where n: "n = Suc m" using found by (cases n) auto
    have "\<not> isl (hasShallowCopyMethod G t)"
      using nopanic[rule_format, of 0] n by simp
    with False have h: "hasShallowCopyMethod G t = Inr False"
      by (cases "hasShallowCopyMethod G t") auto
    have 2: "hasShallowCopyMethod G ((Underlying G ^^ m) (Underlying G t)) = Inr True"
      using found n by (simp add: funpow_swap1)
    have 3: "\<forall>k<m. \<not> isl (hasShallowCopyMethod G ((Underlying G ^^ k) (Underlying G t)))"
      using nopanic n by (auto simp: funpow_swap1 dest: spec[where x="Suc _"])
    have "alias_loop G t (Underlying G t) = Some ReturnedTrue"
      by (rule alias_loop_method[OF h 2 3])
    then show ?thesis using assms(1-4) np h by (simp add: shouldBeCopied_def)
  qed
qed

theorem manual_method_copied_witness:
  "IsExported exampleLibs (Name infoTemp)
   \<and> TypeOf examplePkg (RawSpec infoTemp) = Some 13
   \<and> kind_of exampleLibs 13 = Named
   \<and> kind_of exampleLibs (Underlying exampleLibs 13) = Basic
   \<and> LookupShallowCopy exampleLibs 13 = (Some (Signature None (Some 1)), [1])
   \<and> shouldBeCopied exampleLibs examplePkg infoTemp = Some (Inr (True, examplePkg))
   \<and> IsExported exampleLibs (Name infoP)
   \<and> TypeOf examplePkg (RawSpec infoP) = Some 1
   \<and> kind_of exampleLibs 1 = Named
   \<and> kind_of exampleLibs (Underlying exampleLibs 1) = Pointer
   \<and> LookupShallowCopy exampleLibs (Underlying exampleLibs 1)
        = (Some (Signature None (Some 1)), [0])
   \<and> shouldBeCopied exampleLibs examplePkg infoP = Some (Inr (False, examplePkg))"
proof -
  have t1: "IsExported exampleLibs (Name infoTemp)"
    by (simp add: exampleLibs_simps info_defs startsUpper_def)
  have t2: "TypeOf examplePkg (RawSpec infoTemp) = Some 13"
    by (simp add: info_defs examplePkg_def)
  have t3: "13 \<noteq> Invalid exampleLibs" by (simp add: exampleLibs_simps)
  have t4: "kind_of exampleLibs 13 = Named" by (simp add: exampleLibs_simps)
  have t5: "LookupShallowCopy exampleLibs ((Underlying exampleLibs ^^ 0) 13)
              = (Some (Signature None (Some 1)), [1])"
    by (simp add: exampleLibs_def)
  have t6: "length [1::nat] = 1" by simp
  have t7: "(None::nat option) = None \<or> (None::nat option) = Some 0" by simp
  have t8: "Some (1::nat) = Some 1" by simp
  have t9: "\<forall>k<0. \<not> (length (snd (LookupShallowCopy exampleLibs
                                  ((Underlying exampleLibs ^^ k) 13))) = 1
                \<and> fst (LookupShallowCopy exampleLibs ((Underlying exampleLibs ^^ k) 13))
                    = Some NotSignature)"
    by simp
  have tb: "kind_of exampleLibs (Underlying exampleLibs 13) = Basic"
    by (simp add: exampleLibs_simps)
  have p1: "IsExported exampleLibs (Name infoP)"
    by (simp add: exampleLibs_simps info_defs startsUpper_def)
  have p2: "TypeOf examplePkg (RawSpec infoP) = Some 1"
    by (simp add: info_defs examplePkg_def)
  have p3: "1 \<noteq> Invalid exampleLibs" by (simp add: exampleLibs_simps)
  have p4: "kind_of exampleLibs 1 = Named" by (simp add: exampleLibs_simps)
  have u1: "Underlying exampleLibs 1 = 2" by (simp add: exampleLibs_simps)
  have p5: "LookupShallowCopy exampleLibs ((Underlying exampleLibs ^^ 1) 1)
              = (Some (Signature None (Some 1)), [0])"
    by (simp add: exampleLibs_def)
  have p6: "length [0::nat] = 1" by simp
  have p9: "\<forall>k<1. \<not> (length (snd (LookupShallowCopy exampleLibs
                                  ((Underlying exampleLibs ^^ k) 1))) = 1
                \<and> fst (LookupShallowCopy exampleLibs ((Underlying exampleLibs ^^ k) 1))
                    = Some NotSignature)"
    by (simp add: exampleLibs_def)
  have pp: "kind_of exampleLibs (Underlying exampleLibs 1) = Pointer"
    by (simp add: exampleLibs_simps)
  have t5': "LookupShallowCopy exampleLibs 13 = (Some (Signature None (Some 1)), [1])"
    using t5 by simp
  have p5': "LookupShallowCopy exampleLibs (Underlying exampleLibs 1)
              = (Some (Signature None (Some 1)), [0])"
    using p5 by simp
  have tnp: "kind_of exampleLibs (Underlying exampleLibs 13) \<noteq> Pointer"
    using tb by simp
  from manual_method_copied[OF t1 t2 t3 t4 t5 t6 t7 t8 t9]
    manual_method_copied[OF p1 p2 p3 p4 p5 p6 t7 t8 p9]
    t1 t2 t4 tb tnp t5' p1 p2 p4 pp p5'
  show ?thesis by blast
qed

text \<open>The claim as stated, without the condition on pointers, fails: \<^verbatim>\<open>P\<close> is exported
  and named, the lookup on its underlying type \<^verbatim>\<open>*S\<close> finds the method of \<^verbatim>\<open>S\<close> at
  depth one, and \<^verbatim>\<open>shouldBeCopied\<close> returns false.\<close>

theorem manual_method_pointer_counterexample:
  "IsExported exampleLibs (Name infoP)
   \<and> TypeOf examplePkg (RawSpec infoP) = Some 1
   \<and> kind_of exampleLibs 1 = Named
   \<and> LookupShallowCopy exampleLibs ((Underlying exampleLibs ^^ 1) 1)
       = (Some (Signature None (Some 1)), [0])
   \<and> hasShallowCopyMethod exampleLibs ((Underlying exampleLibs ^^ 1) 1) = Inr True
   \<and> shouldBeCopied exampleLibs examplePkg infoP = Some (Inr (False, examplePkg))"
proof -
  have "kind_of exampleLibs 1 = Named"
    and "hasShallowCopyMethod exampleLibs ((Underlying exampleLibs ^^ 1) 1) = Inr True"
    by (simp_all add: exampleLibs_simps)
  moreover have "LookupShallowCopy exampleLibs ((Underlying exampleLibs ^^ 1) 1)
      = (Some (Signature None (Some 1)), [0])"
    by (simp add: exampleLibs_def)
  ultimately show ?thesis
    using example_exported(2) example_TypeOf(2) example_shouldBeCopied(2) by blast
qed

subsection \<open>C2: named pointer types\<close>

text \<open>
  Claim C2, as amended. For an exported declaration whose type is a named type with a
  pointer as underlying type, the program goes on with the pointer type itself, not
  with its pointee; a pointer is neither a named type nor a struct, so
  \<^verbatim>\<open>shouldBeCopied\<close> returns false, whatever the pointer points to.
\<close>

theorem pointer_not_copied:
  assumes "IsExported G (Name info)"
    and "TypeOf pkg (RawSpec info) = Some t"
    and "t \<noteq> Invalid G"
    and "kind_of G t = Named"
    and "kind_of G (Underlying G t) = Pointer"
  shows "shouldBeCopied G pkg info = Some (Inr (False, pkg))"
  using assms by (simp add: shouldBeCopied_def)

theorem pointer_not_copied_witness:
  "IsExported exampleLibs (Name infoUserRef)
   \<and> TypeOf examplePkg (RawSpec infoUserRef) = Some 15
   \<and> kind_of exampleLibs 15 = Named
   \<and> kind_of exampleLibs (Underlying exampleLibs 15) = Pointer
   \<and> shouldBeCopied exampleLibs examplePkg infoUserRef = Some (Inr (False, examplePkg))"
proof -
  have h1: "IsExported exampleLibs (Name infoUserRef)"
    by (simp add: exampleLibs_simps info_defs startsUpper_def)
  have h2: "TypeOf examplePkg (RawSpec infoUserRef) = Some 15"
    by (simp add: info_defs examplePkg_def)
  have h3: "15 \<noteq> Invalid exampleLibs" by (simp add: exampleLibs_simps)
  have h4: "kind_of exampleLibs 15 = Named" by (simp add: exampleLibs_simps)
  have h5: "kind_of exampleLibs (Underlying exampleLibs 15) = Pointer"
    by (simp add: exampleLibs_simps)
  from pointer_not_copied[OF h1 h2 h3 h4 h5] h1 h2 h4 h5 show ?thesis by blast
qed

text \<open>The claim as stated fails: \<^verbatim>\<open>UserRef\<close> has the underlying type \<^verbatim>\<open>*User\<close>, which
  points to the struct type \<^verbatim>\<open>User\<close>; \<^verbatim>\<open>User\<close> is eligible and \<^verbatim>\<open>UserRef\<close> is not.\<close>

theorem pointer_transparency_counterexample:
  "IsExported exampleLibs (Name infoUserRef)
   \<and> TypeOf examplePkg (RawSpec infoUserRef) = Some 15
   \<and> kind_of exampleLibs (Underlying exampleLibs 15) = Pointer
   \<and> Elem exampleLibs (Underlying exampleLibs 15) = 9
   \<and> TypeOf examplePkg (RawSpec infoUser) = Some 9
   \<and> kind_of exampleLibs (Underlying exampleLibs 9) = Struct
   \<and> shouldBeCopied exampleLibs examplePkg infoUser = Some (Inr (True, examplePkg))
   \<and> shouldBeCopied exampleLibs examplePkg infoUserRef = Some (Inr (False, examplePkg))"
proof -
  have "kind_of exampleLibs (Underlying exampleLibs 15) = Pointer"
    and "kind_of exampleLibs (Underlying exampleLibs 9) = Struct"
    by (simp_all add: exampleLibs_simps)
  moreover have "Elem exampleLibs (Underlying exampleLibs 15) = 9"
    by (simp add: exampleLibs_def)
  ultimately show ?thesis
    using example_exported(8) example_TypeOf(5,8) example_shouldBeCopied(5,8) by blast
qed

subsection \<open>C3: unexported types\<close>

text \<open>
  Claim C3. For a declaration whose name is not exported \<^verbatim>\<open>shouldBeCopied\<close> returns
  false, whatever its markers and its type, and adds no error; and every struct that
  \<^verbatim>\<open>EachType\<close> collects for generation has an exported name, so no method is
  generated for an unexported type.
\<close>

theorem unexported_not_copied:
  "(\<not> IsExported G (Name info) \<longrightarrow> shouldBeCopied G pkg info = Some (Inr (False, pkg)))
   \<and> (EachType G infos (root, []) = Some (Inr (root', structs'))
        \<longrightarrow> (\<forall>s\<in>set structs'. IsExported G (StructName s)))"
proof (intro conjI impI)
  assume "\<not> IsExported G (Name info)"
  then show "shouldBeCopied G pkg info = Some (Inr (False, pkg))"
    by (simp add: shouldBeCopied_def)
next
  assume "EachType G infos (root, []) = Some (Inr (root', structs'))"
  then show "\<forall>s\<in>set structs'. IsExported G (StructName s)"
    by (rule EachType_exported) simp
qed

theorem unexported_not_copied_witness:
  "\<not> IsExported exampleLibs (Name infoHidden)
   \<and> shouldBeCopied exampleLibs examplePkg infoHidden = Some (Inr (False, examplePkg))
   \<and> EachType exampleLibs
        [infoS, infoP, infoCount, infoHidden, infoUser, infoPlain, infoUserRef, infoAlias,
         infoSecret, infoTemp] (examplePkg, []) =
       Some (Inr (examplePkg\<lparr>errors := [ErrFromNode ''Temp is not a struct type'' 113]\<rparr>,
                  [userSpec]))
   \<and> IsExported exampleLibs (StructName userSpec)"
  using unexported_not_copied[of exampleLibs infoHidden examplePkg
      "[infoS, infoP, infoCount, infoHidden, infoUser, infoPlain, infoUserRef, infoAlias,
        infoSecret, infoTemp]" examplePkg
      "examplePkg\<lparr>errors := [ErrFromNode ''Temp is not a struct type'' 113]\<rparr>" "[userSpec]"]
    example_exported(4) example_EachType
  by simp

subsection \<open>C4: the order of the fields in the literal\<close>

text \<open>
  Claim C4, as amended. The generated literal assigns the fields in ascending order of
  their names (byte-wise), whatever order they are declared in and whatever order the
  dictionary is ranged in: the fields go through a \<^verbatim>\<open>jen.Dict\<close>, whose keys jennifer
  sorts. This is the declaration order exactly when the fields are declared in
  ascending order, as \<^verbatim>\<open>A, B, C\<close> are.
\<close>

theorem literal_fields_sorted:
  assumes "\<forall>d. mset (\<rho> d) = mset d"
  shows "render \<rho> (shallowCopyFunc s) = methodText (StructName s) (sort (Fields s))
       \<and> (sorted (Fields s)
            \<longrightarrow> render \<rho> (shallowCopyFunc s) = methodText (StructName s) (Fields s))"
proof -
  have "render \<rho> (shallowCopyFunc s) = methodText (StructName s) (sort (Fields s))"
    using assms by (rule render_shallowCopyFunc)
  moreover have "sort (Fields s) = Fields s" if "sorted (Fields s)"
    using that by (simp add: sort_key_id_if_sorted)
  ultimately show ?thesis by simp
qed

theorem literal_fields_sorted_witness:
  "(\<forall>d::(string \<times> string) list. mset (rev d) = mset d)
   \<and> render rev (shallowCopyFunc userSpec) = methodText ''User'' [''ID'', ''Name'']
   \<and> sorted [''A'', ''B'', ''C'']
   \<and> render rev (shallowCopyFunc \<lparr>StructName = ''T'', Fields = [''A'', ''B'', ''C'']\<rparr>)
       = methodText ''T'' [''A'', ''B'', ''C'']"
proof -
  have p: "\<forall>d::(string \<times> string) list. mset (rev d) = mset d" by simp
  have s: "sorted [''A'', ''B'', ''C'']" by simp
  have u: "sort (Fields userSpec) = [''ID'', ''Name'']" by (simp add: userSpec_def)
  from literal_fields_sorted[OF p, of userSpec]
    literal_fields_sorted[OF p, of "\<lparr>StructName = ''T'', Fields = [''A'', ''B'', ''C'']\<rparr>"]
    p s u
  show ?thesis by (simp add: userSpec_def)
qed

text \<open>The claim as stated fails: \<^verbatim>\<open>User\<close> declares \<^verbatim>\<open>Name\<close> before \<^verbatim>\<open>ID\<close>, the callback
  collects them in that order, and the rendered literal assigns \<^verbatim>\<open>ID\<close> first.\<close>

theorem declaration_order_counterexample:
  "fieldNames exampleLibs 10 = [''Name'', ''ID'']
   \<and> callback exampleLibs (examplePkg, []) infoUser
       = Some (Inr (Appended, examplePkg, [userSpec]))
   \<and> Fields userSpec = [''Name'', ''ID'']
   \<and> render id (shallowCopyFunc userSpec) =
       ''func (o User) ShallowCopy () (User) {'' @ newline @
       ''return User {'' @ newline @
       ''ID:o . ID,'' @ newline @
       ''Name:o . Name,'' @ newline @
       ''}'' @ newline @ ''}''"
proof -
  have "render id (shallowCopyFunc userSpec) =
       ''func (o User) ShallowCopy () (User) {'' @ newline @
       ''return User {'' @ newline @
       ''ID:o . ID,'' @ newline @
       ''Name:o . Name,'' @ newline @
       ''}'' @ newline @ ''}''"
    by (simp add: shallowCopyFunc_def DictFunc_def userSpec_def renderDict_def Func_def
          Params_def Id_def Block_def Return_def Values_def Dot_def)
  then show ?thesis
    using example_fieldNames example_callback(5)[of "[]"] by (simp add: userSpec_def)
qed

subsection \<open>C5: emission is deterministic\<close>

text \<open>
  Claim C5. For a fixed package and a fixed list of structs, emission gives the same
  result (flag, errors, files written) whatever order the Go runtime ranges the
  dictionaries in, and so does \<^verbatim>\<open>Generate\<close> as a whole: two invocations produce the
  same bytes.
\<close>

theorem emission_deterministic:
  assumes "\<forall>d. mset (\<rho>1 d) = mset d" and "\<forall>d. mset (\<rho>2 d) = mset d"
  shows "emit G ctx \<rho>1 st structs = emit G ctx \<rho>2 st structs
       \<and> Generate G ctx \<rho>1 roots files = Generate G ctx \<rho>2 roots files"
proof
  show "emit G ctx \<rho>1 st structs = emit G ctx \<rho>2 st structs"
    using assms by (rule emit_range_order)
  show "Generate G ctx \<rho>1 roots files = Generate G ctx \<rho>2 roots files"
  proof (induction roots arbitrary: files)
    case Nil
    show ?case by simp
  next
    case (Cons root roots)
    show ?case
      by (simp add: generateRoot_range_order[OF assms] Cons.IH
            cong: sum.case_cong option.case_cong bool.case_cong prod.case_cong)
  qed
qed

theorem emission_deterministic_witness:
  "(\<forall>d::(string \<times> string) list. mset (id d) = mset d)
   \<and> (\<forall>d::(string \<times> string) list. mset (rev d) = mset d)
   \<and> emit exampleLibs exampleSink id (examplePkg, []) [userSpec]
       = emit exampleLibs exampleSink rev (examplePkg, []) [userSpec]
   \<and> Generate exampleLibs exampleSink id [examplePkg] []
       = Generate exampleLibs exampleSink rev [examplePkg] []"
proof -
  have p1: "\<forall>d::(string \<times> string) list. mset (id d) = mset d" by simp
  have p2: "\<forall>d::(string \<times> string) list. mset (rev d) = mset d" by simp
  from emission_deterministic[OF p1 p2, of exampleLibs exampleSink "(examplePkg, [])"
      "[userSpec]" "[examplePkg]" "[]"] p1 p2
  show ?thesis by blast
qed

subsection \<open>C6: aliases of basic types\<close>

text \<open>
  Claim C6. For an exported declaration whose type is a named type: if the chain of
  \<^verbatim>\<open>Underlying()\<close> links reaches a fixed point, every type on it after the first is a
  basic type and no lookup on the chain finds a \<^verbatim>\<open>ShallowCopy\<close> method, then
  \<^verbatim>\<open>shouldBeCopied\<close> returns false.
\<close>

theorem basic_alias_not_copied:
  assumes "IsExported G (Name info)"
    and "TypeOf pkg (RawSpec info) = Some t"
    and "t \<noteq> Invalid G"
    and "kind_of G t = Named"
    and "(Underlying G ^^ Suc n) t = (Underlying G ^^ n) t"
    and "\<forall>k\<le>n. 0 < k \<longrightarrow> kind_of G ((Underlying G ^^ k) t) = Basic"
    and "\<forall>k\<le>n. hasShallowCopyMethod G ((Underlying G ^^ k) t) = Inr False"
  shows "shouldBeCopied G pkg info = Some (Inr (False, pkg))"
proof -
  have h: "hasShallowCopyMethod G t = Inr False"
    using assms(7)[rule_format, of 0] by simp
  have "\<exists>x. alias_loop G t (Underlying G t) = Some (Converged x)
          \<and> (x = t \<or> kind_of G x = Basic)
          \<and> kind_of G (Underlying G t) \<noteq> Pointer"
  proof (cases n)
    case 0
    with assms(5) have "Underlying G t = t" by simp
    then show ?thesis using assms(4)
      by (subst alias_loop.simps) simp
  next
    case (Suc m)
    have 1: "(Underlying G ^^ Suc m) (Underlying G t) = (Underlying G ^^ m) (Underlying G t)"
      using assms(5) Suc by (simp only: funpow_Suc_right o_apply)
    have 2: "\<forall>k\<le>m. kind_of G ((Underlying G ^^ k) (Underlying G t)) = Basic"
      using assms(6) Suc by (auto simp: funpow_swap1 dest: spec[where x="Suc _"])
    have 3: "\<forall>k\<le>m. hasShallowCopyMethod G ((Underlying G ^^ k) (Underlying G t)) = Inr False"
      using assms(7) Suc by (auto simp: funpow_swap1 dest: spec[where x="Suc _"])
    have "kind_of G (Underlying G t) = Basic"
      using 2[rule_format, of 0] by simp
    with alias_loop_basic[OF 1 2 3, of t] show ?thesis by auto
  qed
  then obtain x where "alias_loop G t (Underlying G t) = Some (Converged x)"
    and "x = t \<or> kind_of G x = Basic" and "kind_of G (Underlying G t) \<noteq> Pointer"
    by blast
  then show ?thesis
    using assms(1-4) h by (auto simp: shouldBeCopied_def)
qed

theorem basic_alias_not_copied_witness:
  "IsExported exampleLibs (Name infoCount)
   \<and> TypeOf examplePkg (RawSpec infoCount) = Some 5
   \<and> kind_of exampleLibs 5 = Named
   \<and> kind_of exampleLibs (Underlying exampleLibs 5) = Basic
   \<and> shouldBeCopied exampleLibs examplePkg infoCount = Some (Inr (False, examplePkg))"
proof -
  have h1: "IsExported exampleLibs (Name infoCount)"
    by (simp add: exampleLibs_simps info_defs startsUpper_def)
  have h2: "TypeOf examplePkg (RawSpec infoCount) = Some 5"
    by (simp add: info_defs examplePkg_def)
  have h3: "5 \<noteq> Invalid exampleLibs" by (simp add: exampleLibs_simps)
  have h4: "kind_of exampleLibs 5 = Named" by (simp add: exampleLibs_simps)
  have h5: "(Underlying exampleLibs ^^ Suc 1) 5 = (Underlying exampleLibs ^^ 1) 5"
    by (simp add: exampleLibs_simps)
  have h6: "\<forall>k\<le>1. 0 < k \<longrightarrow> kind_of exampleLibs ((Underlying exampleLibs ^^ k) 5) = Basic"
    by (simp add: exampleLibs_simps le_Suc_eq)
  have h7: "\<forall>k\<le>1. hasShallowCopyMethod exampleLibs ((Underlying exampleLibs ^^ k) 5) = Inr False"
    by (auto simp add: exampleLibs_simps le_Suc_eq)
  have b: "kind_of exampleLibs (Underlying exampleLibs 5) = Basic"
    by (simp add: exampleLibs_simps)
  from basic_alias_not_copied[OF h1 h2 h3 h4 h5 h6 h7] h1 h2 h4 b show ?thesis by blast
qed

subsection \<open>C7: the marker and the export check\<close>

text \<open>
  Claim C7, as amended. The callback consults the marker first: a declaration whose
  marker is absent or false leaves by the first \<^verbatim>\<open>return\<close>, exported or not, before
  \<^verbatim>\<open>shouldBeCopied\<close> (and with it the export check) is called. The export check is
  made only for enabled declarations, as the first test of \<^verbatim>\<open>shouldBeCopied\<close>; an
  enabled but unexported declaration leaves by the second \<^verbatim>\<open>return\<close>, with the
  package and the slice unchanged: no error is recorded for it.
\<close>

theorem marker_before_export:
  "(enabledOnType info = Inr False
    \<longrightarrow> callback G (root, structs) info = Some (Inr (NotEnabled, root, structs)))
   \<and> (enabledOnType info' = Inr True \<and> \<not> IsExported G (Name info')
    \<longrightarrow> callback G (root, structs) info' = Some (Inr (NotCopied, root, structs)))"
  by (simp add: callback_def shouldBeCopied_def)

theorem marker_before_export_witness:
  "enabledOnType infoSecret = Inr False
   \<and> \<not> IsExported exampleLibs (Name infoSecret)
   \<and> callback exampleLibs (examplePkg, []) infoSecret = Some (Inr (NotEnabled, examplePkg, []))
   \<and> enabledOnType infoHidden = Inr True
   \<and> \<not> IsExported exampleLibs (Name infoHidden)
   \<and> callback exampleLibs (examplePkg, []) infoHidden = Some (Inr (NotCopied, examplePkg, []))"
  using marker_before_export[of infoSecret exampleLibs examplePkg "[]" infoHidden]
    example_enabled(4,10) example_exported(4,10)
  by blast

text \<open>The claim as stated fails: \<^verbatim>\<open>secret\<close> is unexported and has no marker; the
  callback leaves by the \<^verbatim>\<open>return\<close> after \<^verbatim>\<open>enabledOnType\<close>, not by the one after
  \<^verbatim>\<open>shouldBeCopied\<close>, where the export check is.\<close>

theorem export_before_marker_counterexample:
  "\<not> IsExported exampleLibs (Name infoSecret)
   \<and> callback exampleLibs (examplePkg, []) infoSecret = Some (Inr (NotEnabled, examplePkg, []))
   \<and> callback exampleLibs (examplePkg, []) infoSecret \<noteq> Some (Inr (NotCopied, examplePkg, []))"
  using example_exported(10) example_callback(9)[of "[]"] by simp

subsection \<open>C8: when the generated text does not format\<close>




subsection \<open>C9: the walk along the alias chain terminates\<close>

text \<open>
  Claim C9. If the chain of \<^verbatim>\<open>Underlying()\<close> links that starts at the declared type
  reaches a fixed point (a type that is its own underlying type), the loop of
  \<^verbatim>\<open>shouldBeCopied\<close> started at the declared type leaves, and \<^verbatim>\<open>shouldBeCopied\<close>
  returns (a verdict or a panic): it does not run forever.
\<close>

theorem shouldBeCopied_terminates:
  assumes "TypeOf pkg (RawSpec info) = Some t"
    and "(Underlying G ^^ Suc n) t = (Underlying G ^^ n) t"
  shows "(\<exists>e. alias_loop G t (Underlying G t) = Some e)
       \<and> (\<exists>r. shouldBeCopied G pkg info = Some r)"
proof -
  have fx: "(Underlying G ^^ Suc (Suc n)) t = (Underlying G ^^ Suc n) t"
    using assms(2) by simp
  then have "(Underlying G ^^ Suc n) (Underlying G t) = (Underlying G ^^ n) (Underlying G t)"
    by (simp only: funpow_Suc_right o_apply)
  then obtain e where e: "alias_loop G t (Underlying G t) = Some e"
    using alias_loop_fixed by blast
  have "\<exists>r. shouldBeCopied G pkg info = Some r"
    using e assms(1)
    by (cases e; cases "hasShallowCopyMethod G t")
       (auto simp: shouldBeCopied_def Let_def split: bool.splits)
  with e show ?thesis by blast
qed

theorem shouldBeCopied_terminates_witness:
  "TypeOf examplePkg (RawSpec infoCount) = Some 5
   \<and> (Underlying exampleLibs ^^ Suc 1) 5 = (Underlying exampleLibs ^^ 1) 5
   \<and> (\<exists>e. alias_loop exampleLibs 5 (Underlying exampleLibs 5) = Some e)
   \<and> (\<exists>r. shouldBeCopied exampleLibs examplePkg infoCount = Some r)"
proof -
  have h1: "TypeOf examplePkg (RawSpec infoCount) = Some 5"
    by (simp add: info_defs examplePkg_def)
  have h2: "(Underlying exampleLibs ^^ Suc 1) 5 = (Underlying exampleLibs ^^ 1) 5"
    by (simp add: exampleLibs_simps)
  from shouldBeCopied_terminates[OF h1 h2] h1 h2 show ?thesis by blast
qed

subsection \<open>C10: declarations that are not enabled\<close>

text \<open>
  Claim C10. For a declaration without the marker \<^verbatim>\<open>shallowcopy:generate\<close>, or with
  the value false as its first value, \<^verbatim>\<open>enabledOnType\<close> returns false and the callback
  leaves by its first \<^verbatim>\<open>return\<close> with the package and the slice unchanged, whatever
  \<^verbatim>\<open>shouldBeCopied\<close> would do on it; and the callback appends a struct for generation
  only for a declaration whose marker is present with the value true.
\<close>

theorem not_enabled_skipped:
  "(Get (Markers info) enableTypeMarker_Name = None
      \<or> Get (Markers info) enableTypeMarker_Name = Some (BoolValue False)
    \<longrightarrow> enabledOnType info = Inr False
      \<and> callback G (root, structs) info = Some (Inr (NotEnabled, root, structs)))
   \<and> (callback G (root, structs) info' = Some (Inr (Appended, root', structs'))
    \<longrightarrow> Get (Markers info') enableTypeMarker_Name = Some (BoolValue True))"
proof (intro conjI impI)
  assume a: "Get (Markers info) enableTypeMarker_Name = None
      \<or> Get (Markers info) enableTypeMarker_Name = Some (BoolValue False)"
  then show "enabledOnType info = Inr False"
    by (auto simp: enabledOnType_def)
  with a show "callback G (root, structs) info = Some (Inr (NotEnabled, root, structs))"
    by (simp add: callback_def)
next
  assume "callback G (root, structs) info' = Some (Inr (Appended, root', structs'))"
  then have "enabledOnType info' = Inr True"
    using callback_cases by blast
  then show "Get (Markers info') enableTypeMarker_Name = Some (BoolValue True)"
    by (auto simp: enabledOnType_def split: option.splits marker_value.splits)
qed

theorem not_enabled_skipped_witness:
  "Get (Markers infoAlias) enableTypeMarker_Name = None
   \<and> Get (Markers infoPlain) enableTypeMarker_Name = Some (BoolValue False)
   \<and> enabledOnType infoAlias = Inr False
   \<and> enabledOnType infoPlain = Inr False
   \<and> shouldBeCopied exampleLibs examplePkg infoAlias = Some (Inl TypeAssertion)
   \<and> callback exampleLibs (examplePkg, []) infoAlias = Some (Inr (NotEnabled, examplePkg, []))
   \<and> callback exampleLibs (examplePkg, []) infoPlain = Some (Inr (NotEnabled, examplePkg, []))
   \<and> callback exampleLibs (examplePkg, []) infoUser = Some (Inr (Appended, examplePkg, [userSpec]))
   \<and> Get (Markers infoUser) enableTypeMarker_Name = Some (BoolValue True)"
proof -
  have a: "Get (Markers infoAlias) enableTypeMarker_Name = None"
    by (simp add: Get_def info_defs)
  have p: "Get (Markers infoPlain) enableTypeMarker_Name = Some (BoolValue False)"
    by (simp add: Get_def info_defs marked_def enableTypeMarker_Name_def)
  have u: "callback exampleLibs (examplePkg, []) infoUser
             = Some (Inr (Appended, examplePkg, [userSpec]))"
    using example_callback(5)[of "[]"] by simp
  from not_enabled_skipped[of infoAlias exampleLibs examplePkg "[]" infoUser examplePkg "[userSpec]"]
    not_enabled_skipped[of infoPlain exampleLibs examplePkg "[]" infoUser examplePkg "[userSpec]"]
    a p u example_shouldBeCopied(9)
  show ?thesis by blast
qed

end
